theory Spec2Isabelle
  imports Complex_Main "HOL-Library.Word"
begin

section \<open>The chat component (src/frontend/src/components/Chat.vue)\<close>

subsection \<open>Strings and values of the script\<close>

text \<open>
  A string of the script is a sequence of UTF-16 code units. Message ids are the
  integers the counter takes; they are modelled as natural numbers: a number of the
  script is exact on integers up to \<open>2 ^ 53\<close>, the counter grows by at most two for
  each message pushed, and an array holds fewer than \<open>2 ^ 32\<close> elements.
\<close>

type_synonym code_unit = "16 word"
type_synonym jsstring = "code_unit list"

definition utf16 :: "string \<Rightarrow> jsstring" where
  "utf16 s = map of_char s"

text \<open>
  \<open>String.prototype.trim\<close> removes white space and line terminators from both ends:
  TAB, LF, VT, FF, CR, SP, NBSP, the space separators U+1680, U+2000 to U+200A, U+202F,
  U+205F, U+3000, the line and paragraph separators U+2028, U+2029, and U+FEFF.
\<close>

definition white_space :: "code_unit list" where
  "white_space =
     [0x0009, 0x000A, 0x000B, 0x000C, 0x000D, 0x0020, 0x00A0, 0x1680,
      0x2000, 0x2001, 0x2002, 0x2003, 0x2004, 0x2005, 0x2006, 0x2007, 0x2008, 0x2009, 0x200A,
      0x2028, 0x2029, 0x202F, 0x205F, 0x3000, 0xFEFF]"

definition is_white_space :: "code_unit \<Rightarrow> bool" where
  "is_white_space c = (c \<in> set white_space)"

definition trim :: "jsstring \<Rightarrow> jsstring" where
  "trim s = rev (dropWhile is_white_space (rev (dropWhile is_white_space s)))"

text \<open>
  The values a response body can hold after axios has parsed it, and \<open>undefined\<close>.
  An object is the list of its own properties; of a number the model keeps the value
  and never looks at it.
\<close>

datatype jsvalue =
    Undefined
  | Null
  | Boolean bool
  | Number rat
  | String jsstring
  | Array "jsvalue list"
  | Object "(jsstring \<times> jsvalue) list"

text \<open>What the \<open>catch\<close> clause can receive: the rejection of the request, or the
  TypeError of a member access on \<open>null\<close> or \<open>undefined\<close>.\<close>

datatype js_error = RequestError jsstring | TypeError

text \<open>
  The member access \<open>v.response\<close>: it throws on \<open>null\<close> and \<open>undefined\<close>, yields the
  property of an object that has it, and \<open>undefined\<close> in every other case (a boolean,
  a number, a string and an array have no property of that name).
\<close>

fun get_response :: "jsvalue \<Rightarrow> js_error + jsvalue" where
  "get_response Undefined = Inl TypeError"
| "get_response Null = Inl TypeError"
| "get_response (Object ps) =
     (case map_of ps (utf16 ''response'') of None \<Rightarrow> Inr Undefined | Some v \<Rightarrow> Inr v)"
| "get_response v = Inr Undefined"

subsection \<open>The state of the component\<close>

datatype sender = User | Bot

record message =
  id_of :: nat
  text_of :: jsvalue
  sender_of :: sender

text \<open>
  The three refs of the component, with the two effects of \<open>sendMessage\<close> outside them:
  the bodies posted to \<open>VITE_API_URL\<close> (the \<open>message\<close> field of each request, in the
  order sent) and the errors written with \<open>console.error\<close>.
\<close>

record chat =
  messages :: "message list"
  newMessage :: jsstring
  messageId :: nat
  posted :: "jsstring list"
  console :: "js_error list"

definition greeting :: jsstring where
  "greeting = utf16 ''Hello! How can I help you today?''"

definition error_text :: jsstring where
  "error_text = utf16 ''Sorry, something went wrong. Please try again later.''"

definition initial :: chat where
  "initial =
     \<lparr>messages = [\<lparr>id_of = 1, text_of = String greeting, sender_of = Bot\<rparr>],
      newMessage = [],
      messageId = 2,
      posted = [],
      console = []\<rparr>"

subsection \<open>sendMessage\<close>

text \<open>The result of \<open>await axios.post(...)\<close>: the promise is rejected with an error, or
  resolved with a response, of which the script reads \<open>data\<close> only.\<close>

datatype outcome = Rejected js_error | Resolved jsvalue

text \<open>A push of the message with \<open>id: messageId.value++\<close>, the text \<open>t\<close> and the sender
  \<open>s\<close>, once the text has been evaluated: the message gets the value of the counter, and
  the counter grows by one.\<close>

definition push :: "jsvalue \<Rightarrow> sender \<Rightarrow> chat \<Rightarrow> chat" where
  "push t s st =
     st\<lparr>messages := messages st @ [\<lparr>id_of = messageId st, text_of = t, sender_of = s\<rparr>],
        messageId := messageId st + 1\<rparr>"

text \<open>
  The part of \<open>sendMessage\<close> that runs before the \<open>await\<close>. \<open>None\<close> is the early
  \<open>return\<close>; otherwise the user's message is pushed, the input is cleared and the
  request is posted with the text the input held.
\<close>

definition sendMessage_begin :: "chat \<Rightarrow> chat option" where
  "sendMessage_begin st =
     (if trim (newMessage st) = [] then None
      else
        let st1 = push (String (newMessage st)) User st;
            userQuestion = newMessage st1;
            st2 = st1\<lparr>newMessage := []\<rparr>
        in Some (st2\<lparr>posted := posted st2 @ [userQuestion]\<rparr>))"

text \<open>The \<open>catch\<close> clause.\<close>

definition catch_error :: "js_error \<Rightarrow> chat \<Rightarrow> chat" where
  "catch_error e st = push (String error_text) Bot (st\<lparr>console := console st @ [e]\<rparr>)"

text \<open>
  The part that runs when the request settles. In the object literal of \<open>botMessage\<close>
  the field \<open>id\<close> is evaluated before \<open>text\<close>: when reading \<open>response.data.response\<close>
  throws, the counter has already been incremented and the \<open>catch\<close> clause increments
  it again.
\<close>

definition sendMessage_resume :: "outcome \<Rightarrow> chat \<Rightarrow> chat" where
  "sendMessage_resume r st =
     (case r of
        Rejected e \<Rightarrow> catch_error e st
      | Resolved d \<Rightarrow>
          (case get_response d of
             Inr v \<Rightarrow> push v Bot st
           | Inl e \<Rightarrow> catch_error e (st\<lparr>messageId := messageId st + 1\<rparr>)))"

text \<open>One call of \<open>sendMessage\<close> that runs to its end with nothing in between; \<open>server\<close>
  gives the outcome of the request from the text posted.\<close>

definition sendMessage :: "(jsstring \<Rightarrow> outcome) \<Rightarrow> chat \<Rightarrow> chat" where
  "sendMessage server st =
     (case sendMessage_begin st of
        None \<Rightarrow> st
      | Some st' \<Rightarrow> sendMessage_resume (server (last (posted st'))) st')"

subsection \<open>The lifetime of the component\<close>

text \<open>
  What can happen to the component: the user edits the input (\<open>v-model\<close>), the user
  clicks Send or presses Enter (a call of \<open>sendMessage\<close> starts and runs to its
  \<open>await\<close>), a request in flight settles (the call that awaits it runs to its end).
  The script is single-threaded, so each of the three runs alone; calls of
  \<open>sendMessage\<close> overlap only at the \<open>await\<close>. The number beside the state counts
  the requests in flight.
\<close>

datatype event = Input jsstring | Send | Settle outcome

fun step :: "event \<Rightarrow> chat \<times> nat \<Rightarrow> (chat \<times> nat) option" where
  "step (Input s) (st, n) = Some (st\<lparr>newMessage := s\<rparr>, n)"
| "step Send (st, n) =
     (case sendMessage_begin st of None \<Rightarrow> Some (st, n) | Some st' \<Rightarrow> Some (st', n + 1))"
| "step (Settle r) (st, n) =
     (if n = 0 then None else Some (sendMessage_resume r st, n - 1))"




section \<open>The pipeline behind the chat (spec sections 3 and 4)\<close>

text \<open>
  The chat posts each question to a back end. Its code is not among the sources; the
  definitions of this section follow the specification, each under a note that says so.
\<close>

subsection \<open>Data model\<close>

text \<open>Modelled from the spec: the Intent of section 3 (category, extracted entities,
  confidence score in [0,1]).\<close>

datatype category = MetricLookup | TrendAnalysis | Comparison | Clarification | OutOfScope

record entities =
  metric_name :: "string option"
  time_range :: "string option"
  grouping_dimension :: "string option"

record intent =
  category :: category
  entities :: entities
  confidence :: real

text \<open>Modelled from the spec: the Schema Catalog contract of section 6,
  \<open>list() \<rightarrow> [{table, column, type, sensitive}]\<close>.\<close>

record schema_entry =
  table_name :: string
  column_name :: string
  column_type :: string
  sensitive :: bool

text \<open>Modelled from the spec: the structured reason codes of section 4.3.\<close>

datatype reason_code = UNSAFE_STATEMENT | SCOPE_VIOLATION | INJECTION_RISK

text \<open>
  Modelled from the spec: the CandidateQuery of section 3. The spec fixes no query
  language, so the query text is held as what the checks of the Safety Gate read from
  it: the kind of each statement of the text, whether it carries a comment-injection
  pattern, the tables and columns it references, its row-limit clause if it has one,
  and the literals that stand inline in it; with the bound parameters, the attempt
  number and the feedback consumed from a prior rejection.
\<close>

datatype statement_kind = ReadOnlyProjection | DataModifying

record candidate_query =
  statement_kinds :: "statement_kind list"
  comment_injection :: bool
  referenced :: "(string \<times> string) list"
  limit_clause :: "nat option"
  inline_literals :: "string list"
  bound_parameters :: "string list"
  attempt_number :: nat
  feedback :: "reason_code option"

text \<open>Modelled from the spec: the SafetyVerdict of section 3 (allowed flag, reason code
  when rejected, sanitized query when allowed, set of masked columns).\<close>

record safety_verdict =
  allowed :: bool
  reason :: "reason_code option"
  sanitized :: "candidate_query option"
  masked_columns :: "(string \<times> string) list"

text \<open>Modelled from the spec: the policy the Safety Gate validates against, from the
  configuration surface of section 6: the schema snapshot, from which the allow-list
  and the sensitive columns derive, and the default row-limit ceiling.\<close>

record policy =
  schema_snapshot :: "schema_entry list"
  default_row_limit :: nat

text \<open>Modelled from the spec: the ResultSet of section 3 (ordered rows with column
  metadata, row count, truncation flag).\<close>

record result_set =
  columns :: "string list"
  rows :: "rat list list"
  row_count :: nat
  truncated :: bool

text \<open>Modelled from the spec: the Insight of section 3 (summary text, highlighted
  metric values, optional chart specification).\<close>

record insight =
  summary :: string
  highlighted :: "(string \<times> rat) list"
  chart :: "string option"

subsection \<open>Safety Gate\<close>

text \<open>Modelled from the spec: check 1 of section 4.3, statement shape: exactly one
  read-only projection, no data-modifying, multi-statement or comment-injection
  pattern.\<close>

definition statement_shape :: "candidate_query \<Rightarrow> bool" where
  "statement_shape q \<longleftrightarrow> statement_kinds q = [ReadOnlyProjection] \<and> \<not> comment_injection q"

text \<open>Modelled from the spec: the allow-list derived from the schema snapshot, and
  check 2 of section 4.3, reference scope: every table/column is in it.\<close>

definition allow_list :: "policy \<Rightarrow> (string \<times> string) list" where
  "allow_list pol = map (\<lambda>e. (table_name e, column_name e)) (schema_snapshot pol)"

definition reference_scope :: "candidate_query \<Rightarrow> policy \<Rightarrow> bool" where
  "reference_scope q pol \<longleftrightarrow> list_all (\<lambda>r. r \<in> set (allow_list pol)) (referenced q)"

text \<open>Modelled from the spec: check 3 of section 4.3, bound size. It never rejects (the
  spec gives it no reason code): a candidate without a limit clause gets the
  configured default, and a limit above the ceiling is lowered to it.\<close>

definition bound_size :: "candidate_query \<Rightarrow> policy \<Rightarrow> candidate_query" where
  "bound_size q pol =
     q\<lparr>limit_clause :=
         Some (case limit_clause q of
                 None \<Rightarrow> default_row_limit pol
               | Some n \<Rightarrow> min n (default_row_limit pol))\<rparr>"

text \<open>Modelled from the spec: check 4 of section 4.3, sensitivity: the referenced
  columns flagged sensitive are marked for masking, not rejected.\<close>

definition sensitivity :: "candidate_query \<Rightarrow> policy \<Rightarrow> (string \<times> string) list" where
  "sensitivity q pol =
     filter (\<lambda>r. r \<in> set (map (\<lambda>e. (table_name e, column_name e))
                                (filter sensitive (schema_snapshot pol))))
       (referenced q)"

text \<open>Modelled from the spec: check 5 of section 4.3, parameterization: no literal
  stands inline.\<close>

definition parameterization :: "candidate_query \<Rightarrow> bool" where
  "parameterization q \<longleftrightarrow> inline_literals q = []"

definition rejected :: "reason_code \<Rightarrow> safety_verdict" where
  "rejected c = \<lparr>allowed = False, reason = Some c, sanitized = None, masked_columns = []\<rparr>"

text \<open>Modelled from the spec: \<open>validate(candidateQuery, policy) \<rightarrow> SafetyVerdict\<close> of
  section 4.3, the five checks in their order.\<close>

definition validate :: "candidate_query \<Rightarrow> policy \<Rightarrow> safety_verdict" where
  "validate q pol =
     (if \<not> statement_shape q then rejected UNSAFE_STATEMENT
      else if \<not> reference_scope q pol then rejected SCOPE_VIOLATION
      else
        let q' = bound_size q pol;
            masked = sensitivity q' pol
        in if \<not> parameterization q' then rejected INJECTION_RISK
           else \<lparr>allowed = True, reason = None, sanitized = Some q', masked_columns = masked\<rparr>)"

subsection \<open>Orchestrator\<close>

text \<open>Modelled from the spec: the states of section 4.4, the terminal statuses of a Turn
  (section 3) and what the caller receives.\<close>

datatype state =
    Start | ClassifyIntent | Synthesize | Validate | RetrySynthesize | Execute
  | Analyze | Respond | End | Clarify | Fail

datatype status = answered | clarification_needed | failed

datatype response = Answer insight | TabularEcho result_set | ClarificationRequest | GenericFailure

datatype execution_error = ExecutionTimeout | ExecutionError

datatype analysis_error = AnalysisError

text \<open>Modelled from the spec: the configuration surface of section 6.\<close>

record config =
  synthesis_retry_limit :: nat
  execution_retry_limit :: nat
  confidence_threshold :: real
  gate_policy :: policy

text \<open>
  Modelled from the spec: the collaborators of a turn, as functions. The classifier
  gives its raw output for an utterance, a history and the schema snapshot; the
  synthesizer gives a candidate for an intent, the schema snapshot, the prior feedback
  and the attempt number, or \<open>None\<close> for SynthesisFailure; the Execution Adapter answers
  the n-th call for a sanitized query with rows or an error; the Insight Synthesizer
  gives an Insight for a result set and an intent, or an AnalysisError.
\<close>

record collaborators =
  classifier :: "string \<Rightarrow> string list \<Rightarrow> schema_entry list \<Rightarrow> intent"
  synthesizer :: "intent \<Rightarrow> schema_entry list \<Rightarrow> reason_code option \<Rightarrow> nat \<Rightarrow> candidate_query option"
  adapter :: "candidate_query \<Rightarrow> nat \<Rightarrow> execution_error + result_set"
  analyzer :: "result_set \<Rightarrow> intent \<Rightarrow> analysis_error + insight"

record turn =
  trace :: "state list"
  status :: status
  response :: response

text \<open>Modelled from the spec: \<open>classify\<close> of section 4.1 with the invariant of the Intent:
  a confidence below the configured threshold forces the category Clarification,
  whatever the classifier said.\<close>

definition classify :: "config \<Rightarrow> collaborators \<Rightarrow> string \<Rightarrow> string list \<Rightarrow> intent" where
  "classify cfg co u h =
     (let i = classifier co u h (schema_snapshot (gate_policy cfg))
      in if confidence i < confidence_threshold cfg then i\<lparr>category := Clarification\<rparr> else i)"

text \<open>
  Modelled from the spec: the loop between Synthesize and Validate of section 4.4, from
  the attempt \<open>a\<close> on, with the feedback \<open>fb\<close> of the rejection before. A rejection leads
  to RetrySynthesize while the attempt counter is below the maximum, otherwise to Fail;
  a SynthesisFailure, and a candidate rejected for the reason it was to address (section
  4.2), end the loop at once. The result is the states passed and the sanitized query
  of an allowed verdict.
\<close>

function synth_loop ::
  "config \<Rightarrow> collaborators \<Rightarrow> intent \<Rightarrow> nat \<Rightarrow> reason_code option
     \<Rightarrow> state list \<times> candidate_query option" where
  "synth_loop cfg co i a fb =
     (case synthesizer co i (schema_snapshot (gate_policy cfg)) fb a of
        None \<Rightarrow> ([Synthesize, Fail], None)
      | Some q \<Rightarrow>
          (if allowed (validate q (gate_policy cfg))
           then ([Synthesize, Validate], sanitized (validate q (gate_policy cfg)))
           else if reason (validate q (gate_policy cfg)) = fb
           then ([Synthesize, Validate, Fail], None)
           else if a < synthesis_retry_limit cfg
           then apfst ((@) [Synthesize, Validate, RetrySynthesize])
                  (synth_loop cfg co i (a + 1) (reason (validate q (gate_policy cfg))))
           else ([Synthesize, Validate, Fail], None)))"
  by pat_completeness auto
termination
  by (relation "measure (\<lambda>(cfg, co, i, a, fb). synthesis_retry_limit cfg - a)") auto

declare synth_loop.simps [simp del]

text \<open>Modelled from the spec: the bounded retry of Execute alone (section 4.4): the call
  \<open>k\<close> of the adapter and, on an error, the next one while the execution-retry budget
  lasts, otherwise Fail.\<close>

function exec_loop ::
  "config \<Rightarrow> collaborators \<Rightarrow> candidate_query \<Rightarrow> nat \<Rightarrow> state list \<times> result_set option" where
  "exec_loop cfg co q k =
     (case adapter co q k of
        Inr rs \<Rightarrow> ([Execute], Some rs)
      | Inl e \<Rightarrow>
          (if k < execution_retry_limit cfg
           then apfst ((#) Execute) (exec_loop cfg co q (k + 1))
           else ([Execute, Fail], None)))"
  by pat_completeness auto
termination
  by (relation "measure (\<lambda>(cfg, co, q, k). execution_retry_limit cfg - k)") auto

declare exec_loop.simps [simp del]

text \<open>Modelled from the spec: Analyze and Respond (sections 4.4 and 7): an AnalysisError
  degrades to a tabular echo of the rows, and the turn reaches Respond either way.\<close>

definition respond :: "collaborators \<Rightarrow> result_set \<Rightarrow> intent \<Rightarrow> state list \<times> response" where
  "respond co rs i =
     ([Analyze, Respond, End],
      case analyzer co rs i of Inr ins \<Rightarrow> Answer ins | Inl e \<Rightarrow> TabularEcho rs)"

text \<open>Modelled from the spec: one Turn through the state machine of section 4.4, from
  the utterance to a terminal status.\<close>

definition run_turn :: "config \<Rightarrow> collaborators \<Rightarrow> string \<Rightarrow> string list \<Rightarrow> turn" where
  "run_turn cfg co u h =
     (let i = classify cfg co u h in
      if category i = Clarification \<or> category i = OutOfScope then
        \<lparr>trace = [Start, ClassifyIntent, Clarify],
         status = clarification_needed, response = ClarificationRequest\<rparr>
      else
        case synth_loop cfg co i 1 None of
          (tr1, None) \<Rightarrow>
            \<lparr>trace = [Start, ClassifyIntent] @ tr1, status = failed, response = GenericFailure\<rparr>
        | (tr1, Some q) \<Rightarrow>
            (case exec_loop cfg co q 0 of
               (tr2, None) \<Rightarrow>
                 \<lparr>trace = [Start, ClassifyIntent] @ tr1 @ tr2,
                  status = failed, response = GenericFailure\<rparr>
             | (tr2, Some rs) \<Rightarrow>
                 \<lparr>trace = [Start, ClassifyIntent] @ tr1 @ tr2 @ fst (respond co rs i),
                  status = answered, response = snd (respond co rs i)\<rparr>))"

subsection \<open>A schema, a candidate and a turn to evaluate the pipeline on\<close>

text \<open>The scenario of section 8 of the spec: the schema exposes the table
  \<open>deployments\<close>, the question is about the deployment frequency of last week, and the
  candidate references only that table and has no limit clause.\<close>

definition demo_policy :: policy where
  "demo_policy =
     \<lparr>schema_snapshot =
        [\<lparr>table_name = ''deployments'', column_name = ''ts'',
          column_type = ''timestamp'', sensitive = False\<rparr>,
         \<lparr>table_name = ''deployments'', column_name = ''status'',
          column_type = ''text'', sensitive = False\<rparr>,
         \<lparr>table_name = ''deployments'', column_name = ''author'',
          column_type = ''text'', sensitive = True\<rparr>],
      default_row_limit = 1000\<rparr>"

definition demo_query :: candidate_query where
  "demo_query =
     \<lparr>statement_kinds = [ReadOnlyProjection], comment_injection = False,
      referenced = [(''deployments'', ''ts''), (''deployments'', ''author'')],
      limit_clause = None, inline_literals = [], bound_parameters = [''last_week''],
      attempt_number = 1, feedback = None\<rparr>"

definition demo_config :: config where
  "demo_config =
     \<lparr>synthesis_retry_limit = 3, execution_retry_limit = 2,
      confidence_threshold = 1 / 2, gate_policy = demo_policy\<rparr>"

definition demo_intent :: "real \<Rightarrow> intent" where
  "demo_intent c =
     \<lparr>category = TrendAnalysis,
      entities = \<lparr>metric_name = Some ''deployment_frequency'', time_range = Some ''last_week'',
                  grouping_dimension = None\<rparr>,
      confidence = c\<rparr>"

definition demo_stubborn :: "nat \<Rightarrow> candidate_query option" where
  "demo_stubborn a =
     (if a = 1 then Some (demo_query\<lparr>statement_kinds := [DataModifying]\<rparr>)
      else if a = 2 then Some (demo_query\<lparr>referenced := [(''users'', ''password'')], attempt_number := 2,
                                 feedback := Some UNSAFE_STATEMENT\<rparr>)
      else Some (demo_query\<lparr>inline_literals := [''last_week''], attempt_number := a,
                    feedback := Some SCOPE_VIOLATION\<rparr>))"

definition demo_rows :: result_set where
  "demo_rows =
     \<lparr>columns = [''day'', ''deployments''], rows = [[1, 7], [2, 9]],
      row_count = 2, truncated = False\<rparr>"

definition demo_collaborators :: "real \<Rightarrow> (nat \<Rightarrow> candidate_query option) \<Rightarrow> collaborators" where
  "demo_collaborators c syn =
     \<lparr>classifier = (\<lambda>u h s. demo_intent c),
      synthesizer = (\<lambda>i s fb a. syn a),
      adapter = (\<lambda>q k. if k = 0 then Inl ExecutionTimeout else Inr demo_rows),
      analyzer = (\<lambda>rs i. Inl AnalysisError)\<rparr>"

section \<open>Properties of the chat component\<close>

subsection \<open>What one push does\<close>

lemma messages_push:
  "messages (push t s st) = messages st @ [\<lparr>id_of = messageId st, text_of = t, sender_of = s\<rparr>]"
  by (simp add: push_def)


lemma frame_push:
  "newMessage (push t s st) = newMessage st"
  "posted (push t s st) = posted st"
  "console (push t s st) = console st"
  by (simp_all add: push_def)

lemma sendMessage_begin_Some:
  assumes "trim (newMessage st) \<noteq> []"
  shows "sendMessage_begin st =
    Some (st\<lparr>messages := messages st @
                [\<lparr>id_of = messageId st, text_of = String (newMessage st), sender_of = User\<rparr>],
              messageId := messageId st + 1,
              newMessage := [],
              posted := posted st @ [newMessage st]\<rparr>)"
  using assms by (simp add: sendMessage_begin_def push_def Let_def)

lemma messages_catch_error:
  "messages (catch_error e st) =
     messages st @ [\<lparr>id_of = messageId st, text_of = String error_text, sender_of = Bot\<rparr>]"
  by (simp add: catch_error_def push_def)

lemma frame_catch_error:
  "messageId (catch_error e st) = messageId st + 1"
  "newMessage (catch_error e st) = newMessage st"
  "posted (catch_error e st) = posted st"
  "console (catch_error e st) = console st @ [e]"
  by (simp_all add: catch_error_def push_def)

subsection \<open>The ids of the list\<close>















lemma messages_resume:
  "messages (sendMessage_resume r st) =
     messages st @
       [\<lparr>id_of = (case r of Rejected e \<Rightarrow> messageId st
                   | Resolved d \<Rightarrow>
                       (case get_response d of Inl e \<Rightarrow> messageId st + 1 | Inr v \<Rightarrow> messageId st)),
         text_of = (case r of Rejected e \<Rightarrow> String error_text
                   | Resolved d \<Rightarrow>
                       (case get_response d of Inl e \<Rightarrow> String error_text | Inr v \<Rightarrow> v)),
         sender_of = Bot\<rparr>]"
  by (simp add: sendMessage_resume_def messages_push messages_catch_error
      split: outcome.splits sum.splits)

lemma frame_resume:
  "newMessage (sendMessage_resume r st) = newMessage st"
  "posted (sendMessage_resume r st) = posted st"
  by (simp_all add: sendMessage_resume_def frame_push frame_catch_error
      split: outcome.splits sum.splits)

subsection \<open>The claims about sendMessage\<close>

text \<open>
  C8. When the input, trimmed, is empty, \<open>sendMessage\<close> returns at once: it does not
  reach the \<open>await\<close>, nothing is posted, and the list of messages, the counter of ids
  and the input are as they were (the whole state is).
\<close>

theorem sendMessage_blank_input:
  assumes "trim (newMessage st) = []"
  shows "sendMessage_begin st = None \<and>
         sendMessage server st = st \<and>
         posted (sendMessage server st) = posted st \<and>
         messages (sendMessage server st) = messages st \<and>
         messageId (sendMessage server st) = messageId st \<and>
         newMessage (sendMessage server st) = newMessage st \<and>
         step Send (st, n) = Some (st, n)"
  using assms by (simp add: sendMessage_def sendMessage_begin_def)

theorem sendMessage_blank_input_witness:
  "trim (newMessage (initial\<lparr>newMessage := [0x0020, 0x0009, 0x3000]\<rparr>)) = [] \<and>
   sendMessage (\<lambda>q. Resolved (String q)) (initial\<lparr>newMessage := [0x0020, 0x0009, 0x3000]\<rparr>) =
     initial\<lparr>newMessage := [0x0020, 0x0009, 0x3000]\<rparr> \<and>
   posted (sendMessage (\<lambda>q. Resolved (String q))
     (initial\<lparr>newMessage := [0x0020, 0x0009, 0x3000]\<rparr>)) = []"
proof -
  have h: "trim (newMessage (initial\<lparr>newMessage := [0x0020, 0x0009, 0x3000]\<rparr>)) = []"
    by (simp add: trim_def is_white_space_def white_space_def)
  from sendMessage_blank_input [OF h, of "\<lambda>q. Resolved (String q)" 0] h
  show ?thesis by (simp add: initial_def)
qed

text \<open>
  C9 as stated, at a request that succeeds with the body \<open>null\<close>: reading
  \<open>response.data.response\<close> throws inside the \<open>try\<close>, so there is no response field
  the bot's text could be, and the bot's message carries the fixed text of the
  \<open>catch\<close> clause (with the id 4: the id 3 was taken before the read threw).
\<close>

theorem sendMessage_null_body_counterexample:
  "trim (newMessage (initial\<lparr>newMessage := utf16 ''hi''\<rparr>)) \<noteq> [] \<and>
   get_response Null = Inl TypeError \<and>
   text_of (last (messages (sendMessage (\<lambda>q. Resolved Null)
       (initial\<lparr>newMessage := utf16 ''hi''\<rparr>)))) = String error_text \<and>
   map sender_of (messages (sendMessage (\<lambda>q. Resolved Null)
       (initial\<lparr>newMessage := utf16 ''hi''\<rparr>))) = [Bot, User, Bot] \<and>
   map text_of (messages (sendMessage (\<lambda>q. Resolved Null)
       (initial\<lparr>newMessage := utf16 ''hi''\<rparr>))) =
     [String greeting, String (utf16 ''hi''), String error_text] \<and>
   map id_of (messages (sendMessage (\<lambda>q. Resolved Null)
       (initial\<lparr>newMessage := utf16 ''hi''\<rparr>))) = [1, 2, 4]"
  by (simp add: sendMessage_def sendMessage_begin_def sendMessage_resume_def catch_error_def
      push_def initial_def trim_def is_white_space_def white_space_def utf16_def Let_def)

text \<open>
  C9, amended. When the input, trimmed, is not empty, a call of \<open>sendMessage\<close> appends
  two messages: before the \<open>await\<close> the user's message, whose text is the input as
  typed, after which the input is empty and the request carries that text; when the
  request has settled, one message of the bot, whatever happened to the state in
  between. The bot's text is the field \<open>response\<close> of the body when the request
  succeeded and the field could be read (the body is neither \<open>null\<close> nor
  \<open>undefined\<close>), and the fixed text when the request failed or reading the field
  threw. A call that nothing interrupts leaves the two messages at the end of the
  list, in that order.
\<close>

theorem sendMessage_appends_two:
  assumes "trim (newMessage st) \<noteq> []"
  shows "\<exists>st1.
    sendMessage_begin st = Some st1 \<and>
    messages st1 = messages st @
      [\<lparr>id_of = messageId st, text_of = String (newMessage st), sender_of = User\<rparr>] \<and>
    newMessage st1 = [] \<and>
    posted st1 = posted st @ [newMessage st] \<and>
    (\<forall>r st2. \<exists>i. messages (sendMessage_resume r st2) = messages st2 @
      [\<lparr>id_of = i,
        text_of = (case r of Rejected e \<Rightarrow> String error_text
                  | Resolved d \<Rightarrow>
                      (case get_response d of Inl e \<Rightarrow> String error_text | Inr v \<Rightarrow> v)),
        sender_of = Bot\<rparr>]) \<and>
    sendMessage server st = sendMessage_resume (server (newMessage st)) st1 \<and>
    newMessage (sendMessage server st) = [] \<and>
    (\<exists>i. messages (sendMessage server st) = messages st @
      [\<lparr>id_of = messageId st, text_of = String (newMessage st), sender_of = User\<rparr>,
       \<lparr>id_of = i,
        text_of = (case server (newMessage st) of Rejected e \<Rightarrow> String error_text
                  | Resolved d \<Rightarrow>
                      (case get_response d of Inl e \<Rightarrow> String error_text | Inr v \<Rightarrow> v)),
        sender_of = Bot\<rparr>])"
proof -
  let ?st1 = "st\<lparr>messages := messages st @
                [\<lparr>id_of = messageId st, text_of = String (newMessage st), sender_of = User\<rparr>],
              messageId := messageId st + 1,
              newMessage := [],
              posted := posted st @ [newMessage st]\<rparr>"
  have b: "sendMessage_begin st = Some ?st1"
    using assms by (rule sendMessage_begin_Some)
  have s: "sendMessage server st = sendMessage_resume (server (newMessage st)) ?st1"
    by (simp add: sendMessage_def b)
  have r: "\<forall>r st2. \<exists>i. messages (sendMessage_resume r st2) = messages st2 @
      [\<lparr>id_of = i,
        text_of = (case r of Rejected e \<Rightarrow> String error_text
                  | Resolved d \<Rightarrow>
                      (case get_response d of Inl e \<Rightarrow> String error_text | Inr v \<Rightarrow> v)),
        sender_of = Bot\<rparr>]"
    using messages_resume by blast
  have n: "newMessage (sendMessage server st) = []"
    by (simp add: s frame_resume)
  have m: "\<exists>i. messages (sendMessage server st) = messages st @
      [\<lparr>id_of = messageId st, text_of = String (newMessage st), sender_of = User\<rparr>,
       \<lparr>id_of = i,
        text_of = (case server (newMessage st) of Rejected e \<Rightarrow> String error_text
                  | Resolved d \<Rightarrow>
                      (case get_response d of Inl e \<Rightarrow> String error_text | Inr v \<Rightarrow> v)),
        sender_of = Bot\<rparr>]"
    by (simp add: s messages_resume)
  from b s r n m show ?thesis by simp
qed

theorem sendMessage_appends_two_witness:
  "trim (newMessage (initial\<lparr>newMessage := utf16 '' hi''\<rparr>)) \<noteq> [] \<and>
   map sender_of (messages (sendMessage (\<lambda>q. Resolved (Object [(utf16 ''response'', String q)]))
     (initial\<lparr>newMessage := utf16 '' hi''\<rparr>))) = [Bot, User, Bot] \<and>
   map text_of (messages (sendMessage (\<lambda>q. Resolved (Object [(utf16 ''response'', String q)]))
     (initial\<lparr>newMessage := utf16 '' hi''\<rparr>))) =
       [String greeting, String (utf16 '' hi''), String (utf16 '' hi'')] \<and>
   newMessage (sendMessage (\<lambda>q. Resolved (Object [(utf16 ''response'', String q)]))
     (initial\<lparr>newMessage := utf16 '' hi''\<rparr>)) = []"
proof -
  have h: "trim (newMessage (initial\<lparr>newMessage := utf16 '' hi''\<rparr>)) \<noteq> []"
    by (simp add: trim_def is_white_space_def white_space_def utf16_def)
  from sendMessage_appends_two [OF h, of "\<lambda>q. Resolved (Object [(utf16 ''response'', String q)])"]
  obtain i where
    "messages (sendMessage (\<lambda>q. Resolved (Object [(utf16 ''response'', String q)]))
       (initial\<lparr>newMessage := utf16 '' hi''\<rparr>)) =
     messages (initial\<lparr>newMessage := utf16 '' hi''\<rparr>) @
      [\<lparr>id_of = messageId (initial\<lparr>newMessage := utf16 '' hi''\<rparr>),
        text_of = String (newMessage (initial\<lparr>newMessage := utf16 '' hi''\<rparr>)), sender_of = User\<rparr>,
       \<lparr>id_of = i,
        text_of = (case Resolved (Object [(utf16 ''response'',
                      String (newMessage (initial\<lparr>newMessage := utf16 '' hi''\<rparr>)))]) of
                    Rejected e \<Rightarrow> String error_text
                  | Resolved d \<Rightarrow>
                      (case get_response d of Inl e \<Rightarrow> String error_text | Inr v \<Rightarrow> v)),
        sender_of = Bot\<rparr>]"
    and "newMessage (sendMessage (\<lambda>q. Resolved (Object [(utf16 ''response'', String q)]))
       (initial\<lparr>newMessage := utf16 '' hi''\<rparr>)) = []"
    by blast
  with h show ?thesis by (simp add: initial_def)
qed




section \<open>Properties of the pipeline\<close>

lemmas demo_defs = demo_policy_def demo_query_def demo_config_def demo_intent_def demo_rows_def
  demo_stubborn_def demo_collaborators_def

lemmas gate_defs = validate_def statement_shape_def reference_scope_def allow_list_def
     bound_size_def sensitivity_def parameterization_def rejected_def Let_def

subsection \<open>Safety Gate\<close>

lemma validate_allowed_iff:
  "allowed (validate q pol) \<longleftrightarrow>
     statement_shape q \<and> reference_scope q pol \<and> parameterization q"
  by (simp add: validate_def rejected_def Let_def parameterization_def bound_size_def)

lemma validate_allowed_sanitized:
  "allowed (validate q pol) \<Longrightarrow> sanitized (validate q pol) = Some (bound_size q pol)"
  by (simp add: validate_def rejected_def Let_def split: if_splits)

lemma bound_size_frame:
  "statement_kinds (bound_size q pol) = statement_kinds q"
  "comment_injection (bound_size q pol) = comment_injection q"
  "referenced (bound_size q pol) = referenced q"
  "inline_literals (bound_size q pol) = inline_literals q"
  "bound_parameters (bound_size q pol) = bound_parameters q"
  by (simp_all add: bound_size_def)

lemma bound_size_limit:
  "\<exists>n. limit_clause (bound_size q pol) = Some n \<and> n \<le> default_row_limit pol"
  by (simp add: bound_size_def split: option.splits)

lemma demo_verdict:
  "validate demo_query demo_policy =
     \<lparr>allowed = True, reason = None,
      sanitized = Some (demo_query\<lparr>limit_clause := Some 1000\<rparr>),
      masked_columns = [(''deployments'', ''author'')]\<rparr>"
  by (simp add: demo_defs gate_defs)

text \<open>
  C1. Whenever \<open>validate\<close> returns a verdict with \<open>allowed = True\<close>, the verdict carries a
  sanitized query that is read-only (one statement, a read-only projection, without
  comment injection), row-limited (it has a limit clause, at most the configured
  ceiling), references only tables and columns of the allow-list derived from the
  schema snapshot, and holds no inline literal.
\<close>

theorem gate_allowed_is_safe:
  assumes "allowed (validate q pol)"
  shows "\<exists>s. sanitized (validate q pol) = Some s \<and>
           statement_kinds s = [ReadOnlyProjection] \<and> \<not> comment_injection s \<and>
           (\<exists>n. limit_clause s = Some n \<and> n \<le> default_row_limit pol) \<and>
           set (referenced s) \<subseteq> set (allow_list pol) \<and>
           inline_literals s = []"
proof -
  from assms have sh: "statement_shape q" and sc: "reference_scope q pol"
    and pa: "parameterization q"
    by (simp_all add: validate_allowed_iff)
  have s: "sanitized (validate q pol) = Some (bound_size q pol)"
    using assms by (rule validate_allowed_sanitized)
  from sh have "statement_kinds (bound_size q pol) = [ReadOnlyProjection]"
    "\<not> comment_injection (bound_size q pol)"
    by (simp_all add: statement_shape_def bound_size_frame)
  moreover from sc have "set (referenced (bound_size q pol)) \<subseteq> set (allow_list pol)"
    by (auto simp: reference_scope_def bound_size_frame list_all_iff)
  moreover from pa have "inline_literals (bound_size q pol) = []"
    by (simp add: parameterization_def bound_size_frame)
  ultimately show ?thesis
    using s bound_size_limit [of q pol] by simp
qed

theorem gate_allowed_is_safe_witness:
  "allowed (validate demo_query demo_policy) \<and>
   (\<exists>s. sanitized (validate demo_query demo_policy) = Some s \<and>
        s = demo_query\<lparr>limit_clause := Some 1000\<rparr> \<and>
        statement_kinds s = [ReadOnlyProjection] \<and> \<not> comment_injection s \<and>
        set (referenced s) \<subseteq> set (allow_list demo_policy) \<and>
        inline_literals s = [])"
proof -
  have h: "allowed (validate demo_query demo_policy)"
    by (simp add: demo_verdict)
  from gate_allowed_is_safe [OF h]
  obtain s where "sanitized (validate demo_query demo_policy) = Some s"
    and "statement_kinds s = [ReadOnlyProjection]" "\<not> comment_injection s"
    and "set (referenced s) \<subseteq> set (allow_list demo_policy)" "inline_literals s = []"
    by (elim exE conjE)
  with h show ?thesis by (simp add: demo_verdict)
qed

subsection \<open>Orchestrator\<close>






lemma classify_confidence:
  "confidence (classify cfg co u h) = confidence (classifier co u h (schema_snapshot (gate_policy cfg)))"
  by (simp add: classify_def Let_def)

lemma classify_below_threshold:
  "confidence (classify cfg co u h) < confidence_threshold cfg \<Longrightarrow>
     category (classify cfg co u h) = Clarification"
  by (simp add: classify_def Let_def split: if_splits)

lemma classify_adapter: "classify cfg (co\<lparr>adapter := ad\<rparr>) u h = classify cfg co u h"
  by (simp add: classify_def)

lemma run_turn_clarify:
  assumes "category (classify cfg co u h) = Clarification \<or> category (classify cfg co u h) = OutOfScope"
  shows "run_turn cfg co u h =
     \<lparr>trace = [Start, ClassifyIntent, Clarify],
      status = clarification_needed, response = ClarificationRequest\<rparr>"
  using assms by (simp add: run_turn_def Let_def)

lemma run_turn_adapter_clarify:
  assumes "category (classify cfg co u h) = Clarification \<or> category (classify cfg co u h) = OutOfScope"
  shows "run_turn cfg (co\<lparr>adapter := ad\<rparr>) u h = run_turn cfg co u h"
proof -
  from assms have "category (classify cfg (co\<lparr>adapter := ad\<rparr>) u h) = Clarification \<or>
      category (classify cfg (co\<lparr>adapter := ad\<rparr>) u h) = OutOfScope"
    by (simp add: classify_adapter)
  then have "run_turn cfg (co\<lparr>adapter := ad\<rparr>) u h =
     \<lparr>trace = [Start, ClassifyIntent, Clarify],
      status = clarification_needed, response = ClarificationRequest\<rparr>"
    by (rule run_turn_clarify)
  with run_turn_clarify [OF assms] show ?thesis by simp
qed






text \<open>
  C2. When the Intent of a turn has a confidence below the configured threshold, its
  category is Clarification, the turn goes from ClassifyIntent to Clarify and ends
  there: it enters neither Synthesize nor Execute, and its outcome is the same
  whatever the Execution Adapter is, which is never called.
\<close>

theorem low_confidence_clarifies:
  assumes "confidence (classify cfg co u h) < confidence_threshold cfg"
  shows "category (classify cfg co u h) = Clarification \<and>
         run_turn cfg co u h =
           \<lparr>trace = [Start, ClassifyIntent, Clarify],
            status = clarification_needed, response = ClarificationRequest\<rparr> \<and>
         Synthesize \<notin> set (trace (run_turn cfg co u h)) \<and>
         Execute \<notin> set (trace (run_turn cfg co u h)) \<and>
         (\<forall>ad. run_turn cfg (co\<lparr>adapter := ad\<rparr>) u h = run_turn cfg co u h)"
proof -
  from assms have c: "category (classify cfg co u h) = Clarification"
    by (rule classify_below_threshold)
  then have d: "category (classify cfg co u h) = Clarification \<or>
      category (classify cfg co u h) = OutOfScope" ..
  from d have r: "run_turn cfg co u h =
           \<lparr>trace = [Start, ClassifyIntent, Clarify],
            status = clarification_needed, response = ClarificationRequest\<rparr>"
    by (rule run_turn_clarify)
  have a: "\<forall>ad. run_turn cfg (co\<lparr>adapter := ad\<rparr>) u h = run_turn cfg co u h"
    using run_turn_adapter_clarify [OF d] by simp
  have s: "Synthesize \<notin> set (trace (run_turn cfg co u h))"
    and e: "Execute \<notin> set (trace (run_turn cfg co u h))"
    by (simp_all add: r)
  from c r s e a show ?thesis by (intro conjI)
qed

theorem low_confidence_clarifies_witness:
  "confidence (classify demo_config (demo_collaborators (3 / 10) (\<lambda>a. Some demo_query))
       ''how are we doing'' []) < confidence_threshold demo_config \<and>
   category (classify demo_config (demo_collaborators (3 / 10) (\<lambda>a. Some demo_query))
       ''how are we doing'' []) = Clarification \<and>
   trace (run_turn demo_config (demo_collaborators (3 / 10) (\<lambda>a. Some demo_query))
       ''how are we doing'' []) = [Start, ClassifyIntent, Clarify]"
proof -
  let ?co = "demo_collaborators (3 / 10) (\<lambda>a. Some demo_query)"
  have h: "confidence (classify demo_config ?co ''how are we doing'' [])
      < confidence_threshold demo_config"
    by (simp add: classify_def demo_defs)
  note t = low_confidence_clarifies [OF h]
  from t have c: "category (classify demo_config ?co ''how are we doing'' []) = Clarification"
    by (rule conjunct1)
  from t have "run_turn demo_config ?co ''how are we doing'' [] =
           \<lparr>trace = [Start, ClassifyIntent, Clarify],
            status = clarification_needed, response = ClarificationRequest\<rparr>"
    by (elim conjE)
  then have "trace (run_turn demo_config ?co ''how are we doing'' []) =
      [Start, ClassifyIntent, Clarify]"
    by simp
  with h c show ?thesis by (intro conjI)
qed



end
